theory Spec2Isabelle
  imports Main
begin

section \<open>The browser client: \<open>src/script.js\<close> and its earlier variant\<close>

text \<open>
  Both client files set up the local camera preview and wire three buttons. They differ in
  two places only: the handlers of \<open>src/script.js\<close> write to the console where those of
  \<open>src/unnamed/part_000\<close> call \<open>alert\<close>, and \<open>src/script.js\<close> tests every button for
  \<open>null\<close> before \<open>addEventListener\<close> where \<open>part_000\<close> calls the method on whatever
  \<open>getElementById\<close> returned.

  The host the script runs in is a parameter of the model. Its page is a store from
  element ids to elements (\<open>getElementById\<close> returns the id as the reference, or \<open>null\<close>).
  Its \<open>navigator.mediaDevices\<close> is undefined where the browser gives the page no media
  access (a page served over plain http from another machine, for one), may lack
  \<open>getUserMedia\<close>, or has it; the call of line 5 stands at top level with no test and no
  \<open>try\<close>, so in the first two hosts it throws a \<open>TypeError\<close> there. Where the function
  exists it returns a promise, which settles later with a stream or with a rejection
  reason.
\<close>

record media_stream =
  audioTracks :: "bool list"
  videoTracks :: "bool list"

datatype js_error = TypeError string | DOMException string

datatype handler = ToggleMic | ToggleVideo | EndCall

record element =
  srcObject :: "media_stream option"
  listeners :: "(string \<times> handler) list"

datatype console_entry = ConsoleLog string | ConsoleError string js_error

datatype 'a settled = Fulfilled 'a | Rejected js_error

datatype media_devices = MediaDevices_undefined | GetUserMedia_undefined | GetUserMedia_present

record host =
  mediaDevices :: media_devices
  page :: "string \<rightharpoonup> element"

record script_state =
  document :: "string \<rightharpoonup> element"
  localVideo :: "string option"
  localStream :: "media_stream option"
  mediaPending :: bool
  console :: "console_entry list"
  alerts :: "string list"

definition getElementById :: "(string \<rightharpoonup> element) \<Rightarrow> string \<Rightarrow> string option" where
  "getElementById doc i = (case doc i of None \<Rightarrow> None | Some el \<Rightarrow> Some i)"

text \<open>
  A piece of script returns the state it leaves and the exception it threw, if any: what
  it assigned before throwing stays assigned.
\<close>

type_synonym completion = "script_state \<times> js_error option"

text \<open>
  \<open>ref.addEventListener(type, h)\<close>: a call on \<open>null\<close> throws a \<open>TypeError\<close>; on an element
  the listener is appended unless the same pair is registered already.
\<close>

definition addEventListener ::
  "string option \<Rightarrow> string \<Rightarrow> handler \<Rightarrow> script_state \<Rightarrow> completion" where
  "addEventListener ref ty h st =
     (case ref of
        None \<Rightarrow> (st, Some (TypeError ''Cannot read properties of null (reading addEventListener)''))
      | Some i \<Rightarrow>
          (case document st i of
             None \<Rightarrow> (st, None)
           | Some el \<Rightarrow>
               (st\<lparr>document := (document st)(i \<mapsto>
                      (if (ty, h) \<in> set (listeners el) then el
                       else el\<lparr>listeners := listeners el @ [(ty, h)]\<rparr>))\<rparr>, None)))"

text \<open>Statements in sequence: a thrown exception ends the script where it stands.\<close>

definition and_then :: "completion \<Rightarrow> (script_state \<Rightarrow> completion) \<Rightarrow> completion" where
  "and_then r f = (case r of (st, Some e) \<Rightarrow> (st, Some e) | (st, None) \<Rightarrow> f st)"

text \<open>
  Lines 2 to 12 of both files: the preview element is looked up, \<open>localStream\<close> is declared
  and left undefined, and \<open>navigator.mediaDevices.getUserMedia\<close> is called. Where
  \<open>mediaDevices\<close> is undefined or has no such function the call throws and the script
  ends there, with no promise; otherwise the promise is pending when the top level goes
  on, and the two callbacks run when it settles.
\<close>

definition start_media :: "host \<Rightarrow> completion" where
  "start_media h =
     (let st = \<lparr>document = page h, localVideo = getElementById (page h) ''localVideo'',
                localStream = None, mediaPending = False, console = [], alerts = []\<rparr>
      in case mediaDevices h of
           MediaDevices_undefined \<Rightarrow>
             (st, Some (TypeError ''Cannot read properties of undefined (reading getUserMedia)''))
         | GetUserMedia_undefined \<Rightarrow>
             (st, Some (TypeError ''navigator.mediaDevices.getUserMedia is not a function''))
         | GetUserMedia_present \<Rightarrow> (st\<lparr>mediaPending := True\<rparr>, None))"

text \<open>Lines 35 to 42 of \<open>src/script.js\<close>: \<open>if (button) button.addEventListener(...)\<close>.\<close>

definition listen_if_present :: "string \<Rightarrow> handler \<Rightarrow> script_state \<Rightarrow> completion" where
  "listen_if_present i h st =
     (let button = getElementById (document st) i
      in if button \<noteq> None then addEventListener button ''click'' h st else (st, None))"

definition script_js :: "host \<Rightarrow> completion" where
  "script_js h =
     and_then (and_then (and_then (start_media h)
                 (listen_if_present ''micButton'' ToggleMic))
                 (listen_if_present ''videoButton'' ToggleVideo))
       (listen_if_present ''endCallButton'' EndCall)"

text \<open>Lines 30 to 32 of \<open>part_000\<close>: \<open>document.getElementById(...).addEventListener(...)\<close>.\<close>

definition listen_unchecked :: "string \<Rightarrow> handler \<Rightarrow> script_state \<Rightarrow> completion" where
  "listen_unchecked i h st = addEventListener (getElementById (document st) i) ''click'' h st"

definition part_000 :: "host \<Rightarrow> completion" where
  "part_000 h =
     and_then (and_then (and_then (start_media h)
                 (listen_unchecked ''micButton'' ToggleMic))
                 (listen_unchecked ''videoButton'' ToggleVideo))
       (listen_unchecked ''endCallButton'' EndCall)"

subsection \<open>The button handlers\<close>

definition toggleMic :: "script_state \<Rightarrow> script_state" where
  "toggleMic st =
     st\<lparr>console := console st @ [ConsoleLog ''Mic toggle not fully implemented in this basic example.'']\<rparr>"

definition toggleVideo :: "script_state \<Rightarrow> script_state" where
  "toggleVideo st =
     st\<lparr>console := console st @ [ConsoleLog ''Video toggle not fully implemented in this basic example.'']\<rparr>"

definition endCall :: "script_state \<Rightarrow> script_state" where
  "endCall st =
     st\<lparr>console := console st @ [ConsoleLog ''End call not fully implemented in this basic example.'']\<rparr>"

definition toggleMic_part_000 :: "script_state \<Rightarrow> script_state" where
  "toggleMic_part_000 st =
     st\<lparr>alerts := alerts st @ [''Mic toggle not fully implemented in this basic example.'']\<rparr>"

definition toggleVideo_part_000 :: "script_state \<Rightarrow> script_state" where
  "toggleVideo_part_000 st =
     st\<lparr>alerts := alerts st @ [''Video toggle not fully implemented in this basic example.'']\<rparr>"

definition endCall_part_000 :: "script_state \<Rightarrow> script_state" where
  "endCall_part_000 st =
     st\<lparr>alerts := alerts st @ [''End call not fully implemented in this basic example.'']\<rparr>"

fun invoke :: "handler \<Rightarrow> script_state \<Rightarrow> script_state" where
  "invoke ToggleMic st = toggleMic st"
| "invoke ToggleVideo st = toggleVideo st"
| "invoke EndCall st = endCall st"

fun invoke_part_000 :: "handler \<Rightarrow> script_state \<Rightarrow> script_state" where
  "invoke_part_000 ToggleMic st = toggleMic_part_000 st"
| "invoke_part_000 ToggleVideo st = toggleVideo_part_000 st"
| "invoke_part_000 EndCall st = endCall_part_000 st"

text \<open>
  A click on the element with id \<open>i\<close> runs the element's click listeners in the order of
  their registration; a click on an id the document does not hold reaches no listener.
\<close>

definition click ::
  "(handler \<Rightarrow> script_state \<Rightarrow> script_state) \<Rightarrow> string \<Rightarrow> script_state \<Rightarrow> script_state" where
  "click dispatch i st =
     (case document st i of
        None \<Rightarrow> st
      | Some el \<Rightarrow> foldl (\<lambda>s h. dispatch h s) st (map snd (filter (\<lambda>l. fst l = ''click'') (listeners el))))"

text \<open>Any number of clicks, one after the other.\<close>

definition clicks ::
  "(handler \<Rightarrow> script_state \<Rightarrow> script_state) \<Rightarrow> string list \<Rightarrow> script_state \<Rightarrow> script_state" where
  "clicks dispatch ids st = foldl (\<lambda>s i. click dispatch i s) st ids"

subsection \<open>The promise chain of \<open>getUserMedia\<close>\<close>

text \<open>
  The two callbacks of lines 6 to 12, and \<open>then\<close> and \<open>catch\<close> as promises have them: a
  callback that throws rejects the promise its \<open>then\<close> returned, and \<open>catch\<close> hands a
  rejection to its callback and is fulfilled when that returns.
\<close>

definition on_stream :: "media_stream \<Rightarrow> script_state \<Rightarrow> completion" where
  "on_stream stream st =
     (let st1 = st\<lparr>localStream := Some stream\<rparr>
      in case localVideo st1 of
           None \<Rightarrow> (st1, Some (TypeError ''Cannot set properties of null (setting srcObject)''))
         | Some v \<Rightarrow>
             (case document st1 v of
                None \<Rightarrow> (st1, None)
              | Some el \<Rightarrow> (st1\<lparr>document := (document st1)(v \<mapsto> el\<lparr>srcObject := Some stream\<rparr>)\<rparr>, None)))"

definition on_error :: "js_error \<Rightarrow> script_state \<Rightarrow> completion" where
  "on_error err st =
     (st\<lparr>console := console st @ [ConsoleError ''Error accessing media devices:'' err]\<rparr>, None)"

definition promise_then ::
  "'a settled \<Rightarrow> ('a \<Rightarrow> script_state \<Rightarrow> completion) \<Rightarrow> script_state
     \<Rightarrow> unit settled \<times> script_state" where
  "promise_then p f st =
     (case p of
        Rejected e \<Rightarrow> (Rejected e, st)
      | Fulfilled v \<Rightarrow>
          (case f v st of
             (st', None) \<Rightarrow> (Fulfilled (), st')
           | (st', Some e) \<Rightarrow> (Rejected e, st')))"

definition promise_catch ::
  "unit settled \<times> script_state \<Rightarrow> (js_error \<Rightarrow> script_state \<Rightarrow> completion)
     \<Rightarrow> unit settled \<times> script_state" where
  "promise_catch ps g =
     (case ps of
        (Fulfilled v, st) \<Rightarrow> (Fulfilled v, st)
      | (Rejected e, st) \<Rightarrow>
          (case g e st of
             (st', None) \<Rightarrow> (Fulfilled (), st')
           | (st', Some e') \<Rightarrow> (Rejected e', st')))"

text \<open>
  The promise settles once: \<open>media_settled\<close> runs \<open>.then(on_stream).catch(on_error)\<close> on the
  outcome and returns the promise at the end of the chain, which is the one whose rejection
  nobody would handle.
\<close>

definition media_settled ::
  "media_stream settled \<Rightarrow> script_state \<Rightarrow> unit settled \<times> script_state" where
  "media_settled outcome st =
     (if mediaPending st
      then promise_catch (promise_then outcome on_stream (st\<lparr>mediaPending := False\<rparr>)) on_error
      else (Fulfilled (), st))"

text \<open>
  What both top levels leave of the state they start from, whichever listeners they
  registered and wherever they stopped: nothing was logged, the promise is pending if
  and only if the host has \<open>getUserMedia\<close>, \<open>localStream\<close> is undefined and no element's
  \<open>srcObject\<close> differs from the page's.
\<close>

definition unwired :: "host \<Rightarrow> script_state \<Rightarrow> bool" where
  "unwired h st \<longleftrightarrow>
     localStream st = None \<and> localVideo st = getElementById (page h) ''localVideo''
     \<and> mediaPending st = (mediaDevices h = GetUserMedia_present)
     \<and> console st = [] \<and> alerts st = []
     \<and> (\<forall>i. map_option srcObject (document st i) = map_option srcObject (page h i))"

section \<open>The server: Identity Resolver, Connection Registry and joins\<close>

text \<open>
  \<open>src/README.md\<close> names the server (\<open>server.py\<close>) that assigns usernames and keeps the
  sessions; the file is not among the sources, which hold the browser client only. The
  definitions of this section follow sections 3, 4.1, 4.2 and 4.5 of the specification.
  Of a Session they keep the fields the name invariant reads: its id, its username and its
  room.
\<close>

text \<open>Modelled from the spec: the taxonomy of section 7, as far as joining raises it
  (\<open>server.py\<close> is missing).\<close>

datatype error = InvalidNameError | DuplicateIdError

text \<open>Modelled from the spec: "whitespace-only" names of section 4.2 (\<open>server.py\<close> is
  missing); the whitespace characters are space, tab, line feed, vertical tab, form feed
  and carriage return.\<close>

definition whitespace :: "char \<Rightarrow> bool" where
  "whitespace c \<longleftrightarrow> c \<in> set [CHR '' '', CHR 0x09, CHR 0x0A, CHR 0x0B, CHR 0x0C, CHR 0x0D]"

text \<open>Modelled from the spec: "empty or whitespace-only" (\<open>server.py\<close> is missing).\<close>

definition blank :: "string \<Rightarrow> bool" where
  "blank s = list_all whitespace s"

text \<open>Modelled from the spec: the numerals of the suffixes \<open>name-2\<close>, \<open>name-3\<close>, ... of
  section 4.2, in decimal (\<open>server.py\<close> is missing).\<close>

fun decimal :: "nat \<Rightarrow> string" where
  "decimal n =
     (if n < 10 then [char_of (48 + n)] else decimal (n div 10) @ [char_of (48 + n mod 10)])"

declare decimal.simps [simp del]

text \<open>Modelled from the spec: "appends a numeric suffix (\<open>name-2\<close>, \<open>name-3\<close>, ...)"
  (\<open>server.py\<close> is missing).\<close>

definition suffixed :: "string \<Rightarrow> nat \<Rightarrow> string" where
  "suffixed name k = name @ ''-'' @ decimal k"

text \<open>Reading a numeral back; it is what makes two suffixes of one name differ.\<close>

definition undecimal :: "string \<Rightarrow> nat" where
  "undecimal s = foldl (\<lambda>a c. 10 * a + (of_char c - 48)) 0 s"

lemma undecimal_decimal: "undecimal (decimal n) = n"
proof (induction n rule: decimal.induct)
  case (1 n)
  show ?case
  proof (cases "n < 10")
    case True
    then show ?thesis by (simp add: undecimal_def decimal.simps [of n])
  next
    case False
    with 1 have "undecimal (decimal (n div 10)) = n div 10" by simp
    moreover have "decimal n = decimal (n div 10) @ [char_of (48 + n mod 10)]"
      using False by (simp add: decimal.simps [of n])
    ultimately show ?thesis
      by (simp add: undecimal_def)
  qed
qed

lemma inj_decimal: "inj decimal"
  by (rule inj_on_inverseI [where g = undecimal]) (rule undecimal_decimal)

lemma inj_suffixed: "inj (suffixed name)"
  using inj_decimal by (auto simp: inj_def suffixed_def)

lemma finite_taken: "finite {j. suffixed name j \<in> set names}"
proof -
  have "finite (suffixed name -` set names)"
    by (rule finite_vimageI [OF finite_set inj_suffixed])
  then show ?thesis by (simp add: vimage_def)
qed

text \<open>Modelled from the spec: "appends a numeric suffix ... until an unused name is
  found" (\<open>server.py\<close> is missing): the search tries \<open>k\<close>, \<open>k + 1\<close>, ... in turn. It stops
  because the names in use are finitely many and the suffixed names all differ.\<close>

function first_unused :: "string list \<Rightarrow> string \<Rightarrow> nat \<Rightarrow> string" where
  "first_unused names name k =
     (if suffixed name k \<in> set names then first_unused names name (Suc k) else suffixed name k)"
  by pat_completeness auto

termination first_unused
proof (relation "measure (\<lambda>(names, name, k). card {j. k \<le> j \<and> suffixed name j \<in> set names})")
  show "wf (measure (\<lambda>(names, name, k). card {j. k \<le> j \<and> suffixed name j \<in> set names}))"
    by simp
next
  fix names :: "string list" and name :: string and k :: nat
  assume taken: "suffixed name k \<in> set names"
  have fin: "finite {j. k \<le> j \<and> suffixed name j \<in> set names}"
    by (rule finite_subset [OF _ finite_taken [of name names]]) auto
  have "k \<in> {j. k \<le> j \<and> suffixed name j \<in> set names}"
    and "k \<notin> {j. Suc k \<le> j \<and> suffixed name j \<in> set names}"
    using taken by simp_all
  moreover have "{j. Suc k \<le> j \<and> suffixed name j \<in> set names}
      \<subseteq> {j. k \<le> j \<and> suffixed name j \<in> set names}"
    by auto
  ultimately have "{j. Suc k \<le> j \<and> suffixed name j \<in> set names}
      \<subset> {j. k \<le> j \<and> suffixed name j \<in> set names}"
    by blast
  then have "card {j. Suc k \<le> j \<and> suffixed name j \<in> set names}
      < card {j. k \<le> j \<and> suffixed name j \<in> set names}"
    using fin by (rule psubset_card_mono [rotated])
  then show "((names, name, Suc k), (names, name, k))
      \<in> measure (\<lambda>(names, name, k). card {j. k \<le> j \<and> suffixed name j \<in> set names})"
    by simp
qed

declare first_unused.simps [simp del]

text \<open>Modelled from the spec: \<open>claim(candidateName)\<close> of the Identity Resolver, section 4.2
  (\<open>server.py\<close> is missing). \<open>names\<close> are the usernames of the live Sessions. An empty or
  whitespace-only name is rejected with \<open>InvalidNameError\<close>; an unused name is granted
  unchanged; a name in use gets the first unused suffix from \<open>-2\<close> on. The contract's flag
  \<open>accepted\<close> is left out: the specification does not say what it reports.\<close>

definition claim :: "string list \<Rightarrow> string \<Rightarrow> error + string" where
  "claim names candidateName =
     (if blank candidateName then Inl InvalidNameError
      else if candidateName \<notin> set names then Inr candidateName
      else Inr (first_unused names candidateName 2))"

text \<open>Modelled from the spec: the Session of section 3 (\<open>server.py\<close> is missing), without
  its transport handle and its peer state.\<close>

record session =
  sid :: nat
  username :: string
  roomId :: string

text \<open>Modelled from the spec: \<open>lookupById\<close> of the Connection Registry, section 4.1
  (\<open>server.py\<close> is missing); the Registry is the list of the live Sessions.\<close>

definition lookupById :: "session list \<Rightarrow> nat \<Rightarrow> session option" where
  "lookupById reg i = find (\<lambda>s. sid s = i) reg"

text \<open>Modelled from the spec: \<open>register(session)\<close>, which "fails with \<open>DuplicateIdError\<close>
  if \<open>id\<close> already present" (\<open>server.py\<close> is missing).\<close>

definition register :: "session list \<Rightarrow> session \<Rightarrow> error + session list" where
  "register reg s =
     (if lookupById reg (sid s) \<noteq> None then Inl DuplicateIdError else Inr (reg @ [s]))"

text \<open>Modelled from the spec: \<open>unregister(id)\<close>, a no-op on an unknown id
  (\<open>server.py\<close> is missing). Only the removal of the Session is modelled; what the
  specification adds to it (the Room's member set, the cancelled negotiations and their
  \<open>peer-left\<close> events) touches no username.\<close>

definition unregister :: "session list \<Rightarrow> nat \<Rightarrow> session list" where
  "unregister reg i =
     (case lookupById reg i of None \<Rightarrow> reg | Some s \<Rightarrow> filter (\<lambda>x. sid x \<noteq> i) reg)"

text \<open>Modelled from the spec: the state the Session Supervisor of section 4.5 joins
  against (\<open>server.py\<close> is missing): the Registry and the next id to assign, ids being
  "assigned on connect, never reused".\<close>

record server =
  registry :: "session list"
  next_id :: nat

text \<open>Modelled from the spec: the "default room if none chosen" of section 3
  (\<open>server.py\<close> is missing); the specification gives it no name.\<close>

definition default_room :: string where
  "default_room = ''default''"

text \<open>Modelled from the spec: \<open>Joining \<rightarrow> Active\<close> of section 4.5, "Identity Resolver
  grants a name and Connection Registry admits the Session" (\<open>server.py\<close> is missing). A
  rejected name leaves the server as it was: "the caller must prompt again before a
  Session is admitted to the Registry".\<close>

definition join :: "server \<Rightarrow> string \<Rightarrow> string option \<Rightarrow> server \<times> (error + session)" where
  "join srv candidateName room =
     (case claim (map username (registry srv)) candidateName of
        Inl e \<Rightarrow> (srv, Inl e)
      | Inr finalName \<Rightarrow>
          (let s = \<lparr>sid = next_id srv, username = finalName,
                    roomId = (case room of None \<Rightarrow> default_room | Some r \<Rightarrow> r)\<rparr>
           in case register (registry srv) s of
                Inl e \<Rightarrow> (srv, Inl e)
              | Inr reg \<Rightarrow> (\<lparr>registry = reg, next_id = Suc (next_id srv)\<rparr>, Inr s)))"

text \<open>Modelled from the spec: \<open>Active \<rightarrow> Closing \<rightarrow> Closed\<close> of section 4.5, which
  "triggers Connection Registry \<open>unregister\<close>" (\<open>server.py\<close> is missing).\<close>

definition leave :: "server \<Rightarrow> nat \<Rightarrow> server" where
  "leave srv i = srv\<lparr>registry := unregister (registry srv) i\<rparr>"

text \<open>Modelled from the spec: the frames \<open>join{username}\<close> and \<open>leave{}\<close> of section 6
  (\<open>server.py\<close> is missing), the second with the id of the connection it arrives on, also
  standing for a closed transport. Registry mutations "are serialized" (section 5), so the
  server sees joins and leaves one after the other, in some order.\<close>

datatype frame = Join string "string option" | Leave nat

text \<open>Modelled from the spec: the Supervisor's dispatch of one frame (\<open>server.py\<close> is
  missing).\<close>

fun step :: "server \<Rightarrow> frame \<Rightarrow> server" where
  "step srv (Join candidateName room) = fst (join srv candidateName room)"
| "step srv (Leave i) = leave srv i"

text \<open>Modelled from the spec: the server after a sequence of frames (\<open>server.py\<close> is
  missing).\<close>

definition run :: "server \<Rightarrow> frame list \<Rightarrow> server" where
  "run srv frames = foldl step srv frames"

text \<open>Modelled from the spec: the server at start, with no Session: "state is in-memory
  and ephemeral" (\<open>server.py\<close> is missing).\<close>

definition initial :: server where
  "initial = \<lparr>registry = [], next_id = 0\<rparr>"

text \<open>Ids below the next id: what keeps \<open>register\<close> from ever meeting an id twice.\<close>

definition fresh_ids :: "server \<Rightarrow> bool" where
  "fresh_ids srv \<longleftrightarrow> list_all (\<lambda>s. sid s < next_id srv) (registry srv)"

section \<open>Properties of the client scripts\<close>

text \<open>
  A guarded registration completes normally on every state, and adds or removes no
  element; so does a script that goes on with one.
\<close>

lemma listen_if_present_completes:
  "snd (listen_if_present i h st) = None
   \<and> dom (document (fst (listen_if_present i h st))) = dom (document st)"
proof (cases "document st i")
  case None
  then show ?thesis by (simp add: listen_if_present_def getElementById_def)
next
  case (Some el)
  then have "getElementById (document st) i = Some i" by (simp add: getElementById_def)
  with Some show ?thesis
    by (auto simp: listen_if_present_def addEventListener_def)
qed

lemma and_then_listen_if_present:
  assumes "snd r = None"
  shows "snd (and_then r (listen_if_present i h)) = None
   \<and> dom (document (fst (and_then r (listen_if_present i h)))) = dom (document (fst r))"
proof (cases r)
  case (Pair st x)
  with assms have "and_then r (listen_if_present i h) = listen_if_present i h st"
    by (simp add: and_then_def)
  with Pair listen_if_present_completes [of i h st] show ?thesis by simp
qed

text \<open>
  The registrations add no throw of their own: the top level of \<open>src/script.js\<close> throws
  exactly when line 5 does.
\<close>

lemma script_js_throws_as_line_5: "snd (script_js h) = snd (start_media h)"
proof (cases "snd (start_media h)")
  case None
  let ?b = "and_then (start_media h) (listen_if_present ''micButton'' ToggleMic)"
  let ?c = "and_then ?b (listen_if_present ''videoButton'' ToggleVideo)"
  have "snd ?b = None" using and_then_listen_if_present [OF None] by simp
  then have "snd ?c = None" using and_then_listen_if_present by simp
  then have "snd (script_js h) = None"
    unfolding script_js_def using and_then_listen_if_present by simp
  with None show ?thesis by simp
next
  case (Some e)
  then show ?thesis
    by (cases "start_media h") (simp add: script_js_def and_then_def)
qed

text \<open>
  Claim C8, as the code has it. In a host whose \<open>navigator.mediaDevices\<close> has
  \<open>getUserMedia\<close>, evaluating the top level of \<open>src/script.js\<close> throws in no page, whichever
  of the three buttons it lacks: every \<open>addEventListener\<close> call stands behind a test of
  the reference, so a missing button registers nothing, and the page holds the same
  elements afterwards.
\<close>

theorem script_js_never_throws:
  assumes "mediaDevices h = GetUserMedia_present"
  shows "snd (script_js h) = None \<and> dom (document (fst (script_js h))) = dom (page h)"
proof -
  let ?a = "start_media h"
  let ?b = "and_then ?a (listen_if_present ''micButton'' ToggleMic)"
  let ?c = "and_then ?b (listen_if_present ''videoButton'' ToggleVideo)"
  have a: "snd ?a = None" "dom (document (fst ?a)) = dom (page h)"
    using assms by (simp_all add: start_media_def)
  have b: "snd ?b = None" "dom (document (fst ?b)) = dom (page h)"
    using and_then_listen_if_present [OF a(1)] a(2) by simp_all
  have c: "snd ?c = None" "dom (document (fst ?c)) = dom (page h)"
    using and_then_listen_if_present [OF b(1)] b(2) by simp_all
  show ?thesis
    unfolding script_js_def using and_then_listen_if_present [OF c(1)] c(2) by simp
qed

text \<open>The theorem at a page with no element at all, in a host that has \<open>getUserMedia\<close>.\<close>

theorem script_js_never_throws_witness:
  "mediaDevices \<lparr>mediaDevices = GetUserMedia_present, page = Map.empty\<rparr> = GetUserMedia_present
   \<and> getElementById (page \<lparr>mediaDevices = GetUserMedia_present, page = Map.empty\<rparr>) ''micButton'' = None
   \<and> snd (script_js \<lparr>mediaDevices = GetUserMedia_present, page = Map.empty\<rparr>) = None
   \<and> dom (document (fst (script_js \<lparr>mediaDevices = GetUserMedia_present, page = Map.empty\<rparr>))) = {}"
proof -
  have present:
    "mediaDevices \<lparr>mediaDevices = GetUserMedia_present, page = Map.empty\<rparr> = GetUserMedia_present"
    by simp
  from script_js_never_throws [OF present] present show ?thesis
    by (simp add: getElementById_def)
qed

text \<open>
  Claim C8 as the specification states it, for every host, fails where
  \<open>navigator.mediaDevices\<close> is undefined: the page below lacks all three buttons, and the
  top level throws at line 5, before any of the tests of lines 35 to 42 is reached.
\<close>

theorem script_js_throws_without_mediaDevices:
  "getElementById (page \<lparr>mediaDevices = MediaDevices_undefined, page = Map.empty\<rparr>) ''micButton'' = None
   \<and> snd (script_js \<lparr>mediaDevices = MediaDevices_undefined, page = Map.empty\<rparr>)
       = Some (TypeError ''Cannot read properties of undefined (reading getUserMedia)'')"
  by (simp add: script_js_def start_media_def and_then_def getElementById_def)

text \<open>The earlier variant has no test of the reference and stops at the first missing
  button.\<close>

lemma part_000_throws:
  "mediaDevices h = GetUserMedia_present \<Longrightarrow> page h ''micButton'' = None \<Longrightarrow>
     snd (part_000 h) = Some (TypeError ''Cannot read properties of null (reading addEventListener)'')"
  by (simp add: part_000_def and_then_def start_media_def listen_unchecked_def
      addEventListener_def getElementById_def)

lemma invoke_frame: "(invoke h st)\<lparr>console := c\<rparr> = st\<lparr>console := c\<rparr>"
  by (cases h) (simp_all add: toggleMic_def toggleVideo_def endCall_def)

lemma invoke_part_000_frame: "(invoke_part_000 h st)\<lparr>alerts := a\<rparr> = st\<lparr>alerts := a\<rparr>"
  by (cases h) (simp_all add: toggleMic_part_000_def toggleVideo_part_000_def endCall_part_000_def)

lemma invoke_document: "document (invoke h st) = document st"
  by (cases h) (simp_all add: toggleMic_def toggleVideo_def endCall_def)

lemma foldl_invoke_frame:
  "(foldl (\<lambda>s h. invoke h s) st hs)\<lparr>console := c\<rparr> = st\<lparr>console := c\<rparr>"
  by (induction hs arbitrary: st) (simp_all add: invoke_frame)

lemma foldl_invoke_part_000_frame:
  "(foldl (\<lambda>s h. invoke_part_000 h s) st hs)\<lparr>alerts := a\<rparr> = st\<lparr>alerts := a\<rparr>"
  by (induction hs arbitrary: st) (simp_all add: invoke_part_000_frame)

lemma click_frame: "(click invoke i st)\<lparr>console := c\<rparr> = st\<lparr>console := c\<rparr>"
  by (simp add: click_def foldl_invoke_frame split: option.splits)

lemma click_part_000_frame:
  "(click invoke_part_000 i st)\<lparr>alerts := a\<rparr> = st\<lparr>alerts := a\<rparr>"
  by (simp add: click_def foldl_invoke_part_000_frame split: option.splits)

lemma clicks_frame: "(clicks invoke ids st)\<lparr>console := c\<rparr> = st\<lparr>console := c\<rparr>"
  unfolding clicks_def
  by (induction ids arbitrary: st) (simp_all add: click_frame)

lemma clicks_part_000_frame:
  "(clicks invoke_part_000 ids st)\<lparr>alerts := a\<rparr> = st\<lparr>alerts := a\<rparr>"
  unfolding clicks_def
  by (induction ids arbitrary: st) (simp_all add: click_part_000_frame)

text \<open>
  Claim C9. \<open>toggleMic\<close>, \<open>toggleVideo\<close> and \<open>endCall\<close> change nothing but the output: in
  \<open>src/script.js\<close> each appends one entry to the console, in the variant one alert, and
  the document, the streams with their tracks, \<open>localStream\<close> and every other field are
  what they were; so they are after any sequence of clicks.
\<close>

theorem handlers_change_no_state:
  "(toggleMic st)\<lparr>console := console st\<rparr> = st
   \<and> (toggleVideo st)\<lparr>console := console st\<rparr> = st
   \<and> (endCall st)\<lparr>console := console st\<rparr> = st
   \<and> (toggleMic_part_000 st)\<lparr>alerts := alerts st\<rparr> = st
   \<and> (toggleVideo_part_000 st)\<lparr>alerts := alerts st\<rparr> = st
   \<and> (endCall_part_000 st)\<lparr>alerts := alerts st\<rparr> = st
   \<and> (\<exists>m. console (toggleMic st) = console st @ [ConsoleLog m])
   \<and> (\<exists>m. console (toggleVideo st) = console st @ [ConsoleLog m])
   \<and> (\<exists>m. console (endCall st) = console st @ [ConsoleLog m])
   \<and> (\<exists>m. alerts (toggleMic_part_000 st) = alerts st @ [m])
   \<and> (\<exists>m. alerts (toggleVideo_part_000 st) = alerts st @ [m])
   \<and> (\<exists>m. alerts (endCall_part_000 st) = alerts st @ [m])
   \<and> (clicks invoke ids st)\<lparr>console := console st\<rparr> = st
   \<and> (clicks invoke_part_000 ids st)\<lparr>alerts := alerts st\<rparr> = st"
proof -
  have "(clicks invoke ids st)\<lparr>console := console st\<rparr> = st"
    using clicks_frame [where c = "console st" and st = st and ids = ids] by simp
  moreover have "(clicks invoke_part_000 ids st)\<lparr>alerts := alerts st\<rparr> = st"
    using clicks_part_000_frame [where a = "alerts st" and st = st and ids = ids] by simp
  ultimately show ?thesis
    by (simp add: toggleMic_def toggleVideo_def endCall_def toggleMic_part_000_def
        toggleVideo_part_000_def endCall_part_000_def)
qed

lemma addEventListener_keeps:
  "addEventListener r ty h st = (st', x) \<Longrightarrow>
     localStream st' = localStream st \<and> localVideo st' = localVideo st
     \<and> mediaPending st' = mediaPending st \<and> console st' = console st \<and> alerts st' = alerts st
     \<and> (\<forall>i. map_option srcObject (document st' i) = map_option srcObject (document st i))"
  by (auto simp: addEventListener_def split: option.splits if_splits)

lemma unwired_start: "unwired h (fst (start_media h))"
  by (cases "mediaDevices h") (simp_all add: unwired_def start_media_def)

lemma unwired_step:
  assumes "unwired hst (fst r)"
    and "\<And>st. \<exists>ref. f st = addEventListener ref ''click'' h st \<or> f st = (st, None)"
  shows "unwired hst (fst (and_then r f))"
proof (cases r)
  case (Pair st x)
  show ?thesis
  proof (cases x)
    case None
    obtain ref where "f st = addEventListener ref ''click'' h st \<or> f st = (st, None)"
      using assms(2) by blast
    then show ?thesis
    proof
      assume a: "f st = addEventListener ref ''click'' h st"
      obtain st' y where b: "addEventListener ref ''click'' h st = (st', y)" by fastforce
      from addEventListener_keeps [OF b] assms(1) Pair None a b show ?thesis
        by (simp add: and_then_def unwired_def)
    next
      assume "f st = (st, None)"
      with assms(1) Pair None show ?thesis by (simp add: and_then_def)
    qed
  next
    case (Some e)
    with assms(1) Pair show ?thesis by (simp add: and_then_def)
  qed
qed

lemma listen_if_present_shape:
  "\<exists>ref. listen_if_present i h st = addEventListener ref ''click'' h st \<or> listen_if_present i h st = (st, None)"
  by (auto simp: listen_if_present_def Let_def)

lemma listen_unchecked_shape:
  "\<exists>ref. listen_unchecked i h st = addEventListener ref ''click'' h st \<or> listen_unchecked i h st = (st, None)"
  by (auto simp: listen_unchecked_def)

lemma unwired_listen_if_present:
  "unwired hst (fst r) \<Longrightarrow> unwired hst (fst (and_then r (listen_if_present i h)))"
  by (erule unwired_step [where h = h]) (rule listen_if_present_shape)

lemma unwired_listen_unchecked:
  "unwired hst (fst r) \<Longrightarrow> unwired hst (fst (and_then r (listen_unchecked i h)))"
  by (erule unwired_step [where h = h]) (rule listen_unchecked_shape)

lemma unwired_script_js: "unwired h (fst (script_js h))"
  by (simp add: script_js_def unwired_listen_if_present unwired_start)

lemma unwired_part_000: "unwired h (fst (part_000 h))"
  by (simp add: part_000_def unwired_listen_unchecked unwired_start)

lemma rejection_logged:
  "mediaPending st \<Longrightarrow>
   media_settled (Rejected e) st =
     (Fulfilled (), st\<lparr>mediaPending := False,
        console := console st @ [ConsoleError ''Error accessing media devices:'' e]\<rparr>)"
  by (simp add: media_settled_def promise_then_def promise_catch_def on_error_def)

text \<open>
  For comparison, the two ways a granted stream ends: shown in the preview element, or,
  where the document has no such element, assigned to \<open>localStream\<close> and followed by the
  \<open>TypeError\<close> of the assignment to \<open>null\<close>, which the same \<open>catch\<close> logs.
\<close>

lemma stream_shown:
  assumes "mediaPending st" and "localVideo st = Some v" and "document st v = Some el"
  shows "media_settled (Fulfilled stream) st =
     (Fulfilled (), st\<lparr>mediaPending := False, localStream := Some stream,
        document := (document st)(v \<mapsto> el\<lparr>srcObject := Some stream\<rparr>)\<rparr>)"
  using assms
  by (simp add: media_settled_def promise_then_def promise_catch_def on_stream_def Let_def)

lemma stream_without_preview:
  assumes "mediaPending st" and "localVideo st = None"
  shows "media_settled (Fulfilled stream) st =
     (Fulfilled (), st\<lparr>mediaPending := False, localStream := Some stream,
        console := console st @ [ConsoleError ''Error accessing media devices:''
          (TypeError ''Cannot set properties of null (setting srcObject)'')]\<rparr>)"
  using assms
  by (simp add: media_settled_def promise_then_def promise_catch_def on_stream_def on_error_def
      Let_def)

text \<open>
  Claim C10. When the promise of \<open>getUserMedia\<close> rejects, in either file, the promise at
  the end of the chain is fulfilled, so no rejection is left unhandled; the only effect is
  one \<open>console.error\<close> entry carrying the reason; \<open>localStream\<close> is still undefined and no
  element's \<open>srcObject\<close> was assigned. A promise that rejects was returned by
  \<open>getUserMedia\<close>, so the host is one that has the function; the page \<open>doc\<close> is any.
\<close>

theorem getUserMedia_rejection_only_logged:
  "(\<exists>st. media_settled (Rejected e)
            (fst (script_js \<lparr>mediaDevices = GetUserMedia_present, page = doc\<rparr>)) = (Fulfilled (), st)
      \<and> localStream st = None
      \<and> (\<forall>i. map_option srcObject (document st i) = map_option srcObject (doc i))
      \<and> console st = [ConsoleError ''Error accessing media devices:'' e] \<and> alerts st = [])
   \<and> (\<exists>st. media_settled (Rejected e)
            (fst (part_000 \<lparr>mediaDevices = GetUserMedia_present, page = doc\<rparr>)) = (Fulfilled (), st)
      \<and> localStream st = None
      \<and> (\<forall>i. map_option srcObject (document st i) = map_option srcObject (doc i))
      \<and> console st = [ConsoleError ''Error accessing media devices:'' e] \<and> alerts st = [])"
proof -
  let ?h = "\<lparr>mediaDevices = GetUserMedia_present, page = doc\<rparr>"
  have s: "unwired ?h (fst (script_js ?h))" and p: "unwired ?h (fst (part_000 ?h))"
    by (rule unwired_script_js, rule unwired_part_000)
  then have "mediaPending (fst (script_js ?h))" and "mediaPending (fst (part_000 ?h))"
    by (simp_all add: unwired_def)
  then have "media_settled (Rejected e) (fst (script_js ?h)) =
      (Fulfilled (), (fst (script_js ?h))\<lparr>mediaPending := False,
         console := console (fst (script_js ?h)) @ [ConsoleError ''Error accessing media devices:'' e]\<rparr>)"
    and "media_settled (Rejected e) (fst (part_000 ?h)) =
      (Fulfilled (), (fst (part_000 ?h))\<lparr>mediaPending := False,
         console := console (fst (part_000 ?h)) @ [ConsoleError ''Error accessing media devices:'' e]\<rparr>)"
    by (simp_all add: rejection_logged)
  then show ?thesis
    using s p by (simp add: unwired_def)
qed

section \<open>Properties of the Identity Resolver and of joining\<close>

lemma first_unused_least:
  "\<exists>j\<ge>k. first_unused names name k = suffixed name j \<and> suffixed name j \<notin> set names
      \<and> (\<forall>i. k \<le> i \<and> i < j \<longrightarrow> suffixed name i \<in> set names)"
proof (induction names name k rule: first_unused.induct)
  case (1 names name k)
  show ?case
  proof (cases "suffixed name k \<in> set names")
    case False
    then have "first_unused names name k = suffixed name k"
      by (simp add: first_unused.simps [of names name k])
    with False show ?thesis by auto
  next
    case True
    then have eq: "first_unused names name k = first_unused names name (Suc k)"
      by (simp add: first_unused.simps [of names name k])
    from 1 [OF True] obtain j where j: "Suc k \<le> j"
      "first_unused names name (Suc k) = suffixed name j" "suffixed name j \<notin> set names"
      "\<forall>i. Suc k \<le> i \<and> i < j \<longrightarrow> suffixed name i \<in> set names"
      by blast
    have "\<forall>i. k \<le> i \<and> i < j \<longrightarrow> suffixed name i \<in> set names"
    proof (intro allI impI)
      fix i assume "k \<le> i \<and> i < j"
      then consider "i = k" | "Suc k \<le> i \<and> i < j" by linarith
      then show "suffixed name i \<in> set names"
        using True j(4) by cases auto
    qed
    with j eq show ?thesis by (intro exI [of _ j]) auto
  qed
qed


lemma sam_is_renamed: "claim [''sam'', ''sam-2''] ''sam'' = Inr ''sam-3''"
  by code_simp




lemma claim_unused: "claim names candidateName = Inr name \<Longrightarrow> name \<notin> set names"
  using first_unused_least [of 2 names candidateName]
  by (auto simp: claim_def split: if_splits)

lemma join_distinct:
  assumes "distinct (map username (registry srv))"
  shows "distinct (map username (registry (fst (join srv c r))))"
proof (cases "claim (map username (registry srv)) c")
  case (Inl e)
  with assms show ?thesis by (simp add: join_def)
next
  case (Inr name)
  then have "name \<notin> set (map username (registry srv))" by (rule claim_unused)
  with assms Inr show ?thesis
    by (auto simp: join_def register_def Let_def split: sum.splits)
qed

lemma leave_distinct:
  "distinct (map username (registry srv)) \<Longrightarrow> distinct (map username (registry (leave srv i)))"
  by (simp add: leave_def unregister_def distinct_map_filter split: option.splits)

lemma step_distinct:
  "distinct (map username (registry srv)) \<Longrightarrow> distinct (map username (registry (step srv f)))"
  by (cases f) (simp_all add: join_distinct leave_distinct)

lemma run_distinct:
  "distinct (map username (registry srv)) \<Longrightarrow> distinct (map username (registry (run srv fs)))"
  unfolding run_def by (induction fs arbitrary: srv) (simp_all add: step_distinct)

text \<open>
  Claim C1. Whatever joins and leaves the server has handled, from its start up to any
  point of the sequence, no two live Sessions of the Registry hold the same username.
\<close>

theorem usernames_pairwise_distinct:
  "distinct (map username (registry (run initial (take n frames))))"
proof -
  have "distinct (map username (registry initial))"
    by (simp add: initial_def)
  then show ?thesis
    by (rule run_distinct)
qed

text \<open>
  The invariant is not kept by refusing everybody: in every state the server reaches, a
  join under a name that is not blank is admitted.
\<close>

lemma lookupById_fresh: "fresh_ids srv \<Longrightarrow> lookupById (registry srv) (next_id srv) = None"
  by (auto simp: fresh_ids_def lookupById_def find_None_iff list_all_iff)

lemma step_fresh_ids: "fresh_ids srv \<Longrightarrow> fresh_ids (step srv f)"
  by (cases f)
    (auto simp: fresh_ids_def join_def leave_def register_def unregister_def Let_def list_all_iff
      split: sum.splits option.splits)

lemma run_fresh_ids: "fresh_ids srv \<Longrightarrow> fresh_ids (run srv fs)"
  unfolding run_def by (induction fs arbitrary: srv) (simp_all add: step_fresh_ids)

lemma join_admits:
  assumes "\<not> blank c"
  shows "\<exists>s. snd (join (run initial fs) c r) = Inr s \<and> s \<in> set (registry (fst (join (run initial fs) c r)))"
proof -
  have "fresh_ids (run initial fs)"
    by (rule run_fresh_ids) (simp add: fresh_ids_def initial_def)
  then have "lookupById (registry (run initial fs)) (next_id (run initial fs)) = None"
    by (rule lookupById_fresh)
  moreover have "\<exists>name. claim (map username (registry (run initial fs))) c = Inr name"
    using assms by (simp add: claim_def)
  then obtain name where "claim (map username (registry (run initial fs))) c = Inr name" ..
  ultimately show ?thesis
    by (simp add: join_def register_def Let_def)
qed

lemma two_sams:
  "map username (registry (run initial [Join ''sam'' None, Join ''sam'' None])) = [''sam'', ''sam-2'']"
  by code_simp

end
